theory Spec2Isabelle
  imports Complex_Main
begin

section \<open>Python values\<close>

text \<open>
  The shape classes of \<^verbatim>\<open>examples/shapes/implementations/python/__init__.py\<close> store
  whatever objects their constructors receive and compute with Python's operators.
  A value is one of the built-in objects a caller can pass: \<^verbatim>\<open>None\<close>, a
  \<^verbatim>\<open>bool\<close>, an \<^verbatim>\<open>int\<close> (unbounded), a \<^verbatim>\<open>float\<close>, a
  \<^verbatim>\<open>complex\<close> or a \<^verbatim>\<open>str\<close>.

  Floats are idealised: a \<^verbatim>\<open>float\<close> carries a real number and a
  \<^verbatim>\<open>complex\<close> a complex number, so the arithmetic below is exact. Rounding,
  overflow, infinities and NaN of IEEE doubles are outside this model, and
  \<^verbatim>\<open>math.pi\<close> is the number \<open>\<pi>\<close>.
\<close>

datatype pyval =
    PyNone
  | PyBool bool
  | PyInt int
  | PyFloat real
  | PyComplex complex
  | PyStr string

text \<open>
  The exceptions the operators and the classes raise. A \<^verbatim>\<open>ValueError\<close> carries its
  message, since the source writes it; the interpreter's own messages are left out.
\<close>

datatype pyerr =
    TypeError
  | ValueError string
  | ZeroDivisionError

text \<open>Sequencing of two evaluations: the first exception raised is the result.\<close>

definition bind_err :: "pyerr + 'a \<Rightarrow> ('a \<Rightarrow> pyerr + 'b) \<Rightarrow> pyerr + 'b" where
  "bind_err m f = (case m of Inl e \<Rightarrow> Inl e | Inr v \<Rightarrow> f v)"

subsection \<open>Types and the numeric tower\<close>

text \<open>\<^verbatim>\<open>type(v).__name__\<close> and \<^verbatim>\<open>str(type(v))\<close>.\<close>

fun type_name :: "pyval \<Rightarrow> string" where
  "type_name PyNone = ''NoneType''"
| "type_name (PyBool _) = ''bool''"
| "type_name (PyInt _) = ''int''"
| "type_name (PyFloat _) = ''float''"
| "type_name (PyComplex _) = ''complex''"
| "type_name (PyStr _) = ''str''"

definition type_repr :: "pyval \<Rightarrow> string" where
  "type_repr v = ''<class '' @ [CHR 0x27] @ type_name v @ [CHR 0x27] @ ''>''"

text \<open>
  \<^verbatim>\<open>isinstance(v, (int, float, complex))\<close>. The class \<^verbatim>\<open>bool\<close> is a subclass of
  \<^verbatim>\<open>int\<close>, so a boolean is an instance too.
\<close>

fun isinstance_number :: "pyval \<Rightarrow> bool" where
  "isinstance_number (PyBool _) = True"
| "isinstance_number (PyInt _) = True"
| "isinstance_number (PyFloat _) = True"
| "isinstance_number (PyComplex _) = True"
| "isinstance_number _ = False"

text \<open>
  The value of an object as an integer, as a float and as a complex number, where Python's
  arithmetic converts it implicitly: \<^verbatim>\<open>True\<close> is 1 and \<^verbatim>\<open>False\<close> is 0, an integer
  widens to a float, a float to a complex number, and nothing narrows.
\<close>

fun as_int :: "pyval \<Rightarrow> int option" where
  "as_int (PyBool b) = Some (if b then 1 else 0)"
| "as_int (PyInt i) = Some i"
| "as_int _ = None"

fun as_float :: "pyval \<Rightarrow> real option" where
  "as_float (PyBool b) = Some (if b then 1 else 0)"
| "as_float (PyInt i) = Some (of_int i)"
| "as_float (PyFloat x) = Some x"
| "as_float _ = None"

fun as_complex :: "pyval \<Rightarrow> complex option" where
  "as_complex (PyBool b) = Some (if b then 1 else 0)"
| "as_complex (PyInt i) = Some (of_int i)"
| "as_complex (PyFloat x) = Some (of_real x)"
| "as_complex (PyComplex z) = Some z"
| "as_complex _ = None"

text \<open>
  A binary arithmetic operator on two numbers: on two integers the integer operation, else
  on two reals the float operation, else the complex one. Anything else is a
  \<^verbatim>\<open>TypeError\<close>.
\<close>

definition numeric_op ::
  "(int \<Rightarrow> int \<Rightarrow> pyval) \<Rightarrow> (real \<Rightarrow> real \<Rightarrow> pyval) \<Rightarrow> (complex \<Rightarrow> complex \<Rightarrow> pyval)
     \<Rightarrow> pyval \<Rightarrow> pyval \<Rightarrow> pyerr + pyval" where
  "numeric_op fi fr fc a b =
     (case (as_int a, as_int b) of
        (Some x, Some y) \<Rightarrow> Inr (fi x y)
      | _ \<Rightarrow>
        (case (as_float a, as_float b) of
           (Some x, Some y) \<Rightarrow> Inr (fr x y)
         | _ \<Rightarrow>
           (case (as_complex a, as_complex b) of
              (Some x, Some y) \<Rightarrow> Inr (fc x y)
            | _ \<Rightarrow> Inl TypeError)))"

subsection \<open>Operators\<close>

text \<open>\<^verbatim>\<open>a + b\<close>: numbers add, two strings concatenate.\<close>

fun py_add :: "pyval \<Rightarrow> pyval \<Rightarrow> pyerr + pyval" where
  "py_add (PyStr s) (PyStr t) = Inr (PyStr (s @ t))"
| "py_add a b =
     numeric_op (\<lambda>x y. PyInt (x + y)) (\<lambda>x y. PyFloat (x + y)) (\<lambda>x y. PyComplex (x + y)) a b"

text \<open>\<^verbatim>\<open>a - b\<close>: numbers only.\<close>

definition py_sub :: "pyval \<Rightarrow> pyval \<Rightarrow> pyerr + pyval" where
  "py_sub a b =
     numeric_op (\<lambda>x y. PyInt (x - y)) (\<lambda>x y. PyFloat (x - y)) (\<lambda>x y. PyComplex (x - y)) a b"

text \<open>
  \<^verbatim>\<open>a * b\<close>: numbers multiply; a string times an integer (either way round) is the
  string repeated, empty when the count is not positive.
\<close>

definition str_repeat :: "string \<Rightarrow> pyval \<Rightarrow> pyerr + pyval" where
  "str_repeat s n =
     (case as_int n of
        Some k \<Rightarrow> Inr (PyStr (concat (replicate (nat k) s)))
      | None \<Rightarrow> Inl TypeError)"

fun py_mul :: "pyval \<Rightarrow> pyval \<Rightarrow> pyerr + pyval" where
  "py_mul (PyStr s) b = str_repeat s b"
| "py_mul a (PyStr s) = str_repeat s a"
| "py_mul a b =
     numeric_op (\<lambda>x y. PyInt (x * y)) (\<lambda>x y. PyFloat (x * y)) (\<lambda>x y. PyComplex (x * y)) a b"

text \<open>
  \<^verbatim>\<open>a / b\<close>, true division: on numbers only, never an integer result, and a zero
  divisor raises \<^verbatim>\<open>ZeroDivisionError\<close>.
\<close>

definition py_truediv :: "pyval \<Rightarrow> pyval \<Rightarrow> pyerr + pyval" where
  "py_truediv a b =
     (case (as_complex a, as_complex b) of
        (Some _, Some z) \<Rightarrow>
          if z = 0 then Inl ZeroDivisionError
          else numeric_op (\<lambda>x y. PyFloat (of_int x / of_int y)) (\<lambda>x y. PyFloat (x / y))
                 (\<lambda>x y. PyComplex (x / y)) a b
      | _ \<Rightarrow> Inl TypeError)"

text \<open>
  \<^verbatim>\<open>a == b\<close>: numbers compare by value across the numeric types, strings by their
  characters, \<^verbatim>\<open>None\<close> equals itself only. The comparison never raises.
\<close>

fun py_eq :: "pyval \<Rightarrow> pyval \<Rightarrow> bool" where
  "py_eq (PyStr s) (PyStr t) = (s = t)"
| "py_eq PyNone PyNone = True"
| "py_eq a b =
     (case (as_complex a, as_complex b) of
        (Some x, Some y) \<Rightarrow> x = y
      | _ \<Rightarrow> False)"

subsection \<open>The \<^verbatim>\<open>math\<close> module\<close>

definition math_pi :: pyval where
  "math_pi = PyFloat pi"

text \<open>
  \<^verbatim>\<open>math.sqrt(v)\<close> takes a real number (an integer or a float) and raises
  \<^verbatim>\<open>ValueError("math domain error")\<close> on a negative one.
\<close>

definition math_sqrt :: "pyval \<Rightarrow> pyerr + pyval" where
  "math_sqrt v =
     (case as_float v of
        None \<Rightarrow> Inl TypeError
      | Some x \<Rightarrow>
          if x < 0 then Inl (ValueError ''math domain error'')
          else Inr (PyFloat (sqrt x)))"

section \<open>The shape classes\<close>

text \<open>
  An instance is the record of its attributes. A constructor returns the new instance or
  the exception \<^verbatim>\<open>__init__\<close> raised. A method receives \<^verbatim>\<open>self\<close> and returns what
  the call returns or raises, together with \<^verbatim>\<open>self\<close> as the call leaves it.
\<close>

subsection \<open>Circle\<close>

record circle =
  radius :: pyval

definition Circle_init :: "pyval \<Rightarrow> pyerr + circle" where
  "Circle_init r =
     (if \<not> isinstance_number r
      then Inl (ValueError (''radius must be a number, got '' @ type_repr r))
      else Inr \<lparr>radius = r\<rparr>)"

definition Circle_area :: "circle \<Rightarrow> (pyerr + pyval) \<times> circle" where
  "Circle_area self =
     (bind_err (py_mul math_pi (radius self)) (\<lambda>x. py_mul x (radius self)), self)"

definition Circle_perimeter :: "circle \<Rightarrow> (pyerr + pyval) \<times> circle" where
  "Circle_perimeter self =
     (bind_err (py_mul (PyInt 2) math_pi) (\<lambda>x. py_mul x (radius self)), self)"

definition Circle_diameter :: "circle \<Rightarrow> (pyerr + pyval) \<times> circle" where
  "Circle_diameter self = (py_mul (PyInt 2) (radius self), self)"

subsection \<open>Rectangle\<close>

record rectangle =
  width :: pyval
  height :: pyval


definition Rectangle_area :: "rectangle \<Rightarrow> (pyerr + pyval) \<times> rectangle" where
  "Rectangle_area self = (py_mul (width self) (height self), self)"

definition Rectangle_perimeter :: "rectangle \<Rightarrow> (pyerr + pyval) \<times> rectangle" where
  "Rectangle_perimeter self =
     (bind_err (py_add (width self) (height self)) (\<lambda>x. py_mul (PyInt 2) x), self)"

definition Rectangle_edge_count :: "rectangle \<Rightarrow> (pyerr + pyval) \<times> rectangle" where
  "Rectangle_edge_count self = (Inr (PyInt 4), self)"

definition Rectangle_vertex_count :: "rectangle \<Rightarrow> (pyerr + pyval) \<times> rectangle" where
  "Rectangle_vertex_count self = (Inr (PyInt 4), self)"

definition Rectangle_is_square :: "rectangle \<Rightarrow> (pyerr + pyval) \<times> rectangle" where
  "Rectangle_is_square self = (Inr (PyBool (py_eq (width self) (height self))), self)"

subsection \<open>Triangle\<close>

record triangle =
  side_a :: pyval
  side_b :: pyval
  side_c :: pyval


text \<open>
  \<^verbatim>\<open>s = (self.side_a + self.side_b + self.side_c) / 2\<close>, then
  \<^verbatim>\<open>math.sqrt(s * (s - self.side_a) * (s - self.side_b) * (s - self.side_c))\<close>,
  each operator applied in Python's order (left to right, products left-nested).
\<close>

definition Triangle_area :: "triangle \<Rightarrow> (pyerr + pyval) \<times> triangle" where
  "Triangle_area self =
     (bind_err (py_add (side_a self) (side_b self)) (\<lambda>ab.
      bind_err (py_add ab (side_c self)) (\<lambda>abc.
      bind_err (py_truediv abc (PyInt 2)) (\<lambda>s.
      bind_err (py_sub s (side_a self)) (\<lambda>sa.
      bind_err (py_mul s sa) (\<lambda>p1.
      bind_err (py_sub s (side_b self)) (\<lambda>sb.
      bind_err (py_mul p1 sb) (\<lambda>p2.
      bind_err (py_sub s (side_c self)) (\<lambda>sc.
      bind_err (py_mul p2 sc) (\<lambda>radicand.
      math_sqrt radicand))))))))), self)"

definition Triangle_perimeter :: "triangle \<Rightarrow> (pyerr + pyval) \<times> triangle" where
  "Triangle_perimeter self =
     (bind_err (py_add (side_a self) (side_b self)) (\<lambda>ab. py_add ab (side_c self)), self)"

definition Triangle_edge_count :: "triangle \<Rightarrow> (pyerr + pyval) \<times> triangle" where
  "Triangle_edge_count self = (Inr (PyInt 3), self)"

definition Triangle_vertex_count :: "triangle \<Rightarrow> (pyerr + pyval) \<times> triangle" where
  "Triangle_vertex_count self = (Inr (PyInt 3), self)"

subsection \<open>The Polygon capability\<close>

text \<open>
  \<^verbatim>\<open>Polygon\<close> is abstract; its instances are the instances of its subclasses
  \<^verbatim>\<open>Rectangle\<close> and \<^verbatim>\<open>Triangle\<close>. A call of \<^verbatim>\<open>edge_count\<close> or
  \<^verbatim>\<open>vertex_count\<close> on a polygon runs the method of the instance's class.
\<close>

datatype polygon = ARectangle rectangle | ATriangle triangle

fun edge_count :: "polygon \<Rightarrow> (pyerr + pyval) \<times> polygon" where
  "edge_count (ARectangle r) = map_prod id ARectangle (Rectangle_edge_count r)"
| "edge_count (ATriangle t) = map_prod id ATriangle (Triangle_edge_count t)"

fun vertex_count :: "polygon \<Rightarrow> (pyerr + pyval) \<times> polygon" where
  "vertex_count (ARectangle r) = map_prod id ARectangle (Rectangle_vertex_count r)"
| "vertex_count (ATriangle t) = map_prod id ATriangle (Triangle_vertex_count t)"

section \<open>The specification's geometry\<close>



section \<open>Facts about the operators\<close>

lemma bind_err_Inr [simp]: "bind_err (Inr v) f = f v"
  by (simp add: bind_err_def)

lemma bind_err_Inl [simp]: "bind_err (Inl e) f = Inl e"
  by (simp add: bind_err_def)












section \<open>Heron's formula\<close>






section \<open>Totality on numbers\<close>





section \<open>Construction of a circle\<close>

text \<open>
  The claim C1 as it is written asks for a \<^verbatim>\<open>TypeError\<close> on a radius that is not a
  number. The constructor raises \<^verbatim>\<open>ValueError\<close>: on the string of the specification's
  own example the result is that exception with the message the source formats, and it is
  not a \<^verbatim>\<open>TypeError\<close>.
\<close>

theorem Circle_init_type_error_counterexample:
  "Circle_init (PyStr ''not a number'') =
     Inl (ValueError ''radius must be a number, got <class 'str'>'')
   \<and> Circle_init (PyStr ''not a number'') \<noteq> Inl TypeError"
  by (simp add: Circle_init_def type_repr_def)

text \<open>
  C1, amended: constructing a \<^verbatim>\<open>Circle\<close> whose radius is not an instance of
  \<^verbatim>\<open>int\<close>, \<^verbatim>\<open>float\<close> or \<^verbatim>\<open>complex\<close> (a string, \<^verbatim>\<open>None\<close>) fails with a
  \<^verbatim>\<open>ValueError\<close> that names the type of the argument, and no instance is returned;
  for every integer (a boolean is one), float and complex number the construction succeeds
  and the instance stores the argument as it is.
\<close>

theorem Circle_init_checks_type:
  "Circle_init (PyBool b) = Inr \<lparr>radius = PyBool b\<rparr>
   \<and> Circle_init (PyInt i) = Inr \<lparr>radius = PyInt i\<rparr>
   \<and> Circle_init (PyFloat x) = Inr \<lparr>radius = PyFloat x\<rparr>
   \<and> Circle_init (PyComplex z) = Inr \<lparr>radius = PyComplex z\<rparr>
   \<and> Circle_init (PyStr s) = Inl (ValueError ''radius must be a number, got <class 'str'>'')
   \<and> Circle_init PyNone = Inl (ValueError ''radius must be a number, got <class 'NoneType'>'')"
  by (simp add: Circle_init_def type_repr_def)

section \<open>The domain error of a triangle's area\<close>




section \<open>The formulas of a circle\<close>



section \<open>The formulas of a triangle\<close>



section \<open>The formulas of a rectangle\<close>



section \<open>Squares\<close>



section \<open>Edges and vertices\<close>

text \<open>
  C7: for every rectangle \<^verbatim>\<open>edge_count()\<close> and \<^verbatim>\<open>vertex_count()\<close> return the
  constant 4, for every triangle they return the constant 3, and so on every polygon the
  two calls return the same value.
\<close>

theorem polygon_counts:
  "fst (Rectangle_edge_count r) = Inr (PyInt 4) \<and> fst (Rectangle_vertex_count r) = Inr (PyInt 4)
   \<and> fst (Triangle_edge_count t) = Inr (PyInt 3) \<and> fst (Triangle_vertex_count t) = Inr (PyInt 3)
   \<and> fst (edge_count p) = fst (vertex_count p)"
  by (cases p)
    (simp_all add: Rectangle_edge_count_def Rectangle_vertex_count_def Triangle_edge_count_def
      Triangle_vertex_count_def)

section \<open>Operations that never raise\<close>



section \<open>Methods leave the instance as it is\<close>

text \<open>
  C9: no method of a circle, a rectangle or a triangle changes an attribute of its
  instance (\<^verbatim>\<open>area\<close>, \<^verbatim>\<open>perimeter\<close>, \<^verbatim>\<open>diameter\<close>, \<^verbatim>\<open>edge_count\<close>,
  \<^verbatim>\<open>vertex_count\<close>, \<^verbatim>\<open>is_square\<close>): the instance after the call is the instance
  before it, and a second call on it returns what the first one returned.
\<close>

theorem methods_leave_self_unchanged:
  "snd (Circle_area c) = c \<and> snd (Circle_perimeter c) = c \<and> snd (Circle_diameter c) = c
   \<and> snd (Rectangle_area r) = r \<and> snd (Rectangle_perimeter r) = r
   \<and> snd (Rectangle_edge_count r) = r \<and> snd (Rectangle_vertex_count r) = r
   \<and> snd (Rectangle_is_square r) = r
   \<and> snd (Triangle_area t) = t \<and> snd (Triangle_perimeter t) = t
   \<and> snd (Triangle_edge_count t) = t \<and> snd (Triangle_vertex_count t) = t
   \<and> fst (Circle_area (snd (Circle_area c))) = fst (Circle_area c)
   \<and> fst (Circle_perimeter (snd (Circle_perimeter c))) = fst (Circle_perimeter c)
   \<and> fst (Circle_diameter (snd (Circle_diameter c))) = fst (Circle_diameter c)
   \<and> fst (Rectangle_area (snd (Rectangle_area r))) = fst (Rectangle_area r)
   \<and> fst (Rectangle_perimeter (snd (Rectangle_perimeter r))) = fst (Rectangle_perimeter r)
   \<and> fst (Rectangle_edge_count (snd (Rectangle_edge_count r))) = fst (Rectangle_edge_count r)
   \<and> fst (Rectangle_vertex_count (snd (Rectangle_vertex_count r))) = fst (Rectangle_vertex_count r)
   \<and> fst (Rectangle_is_square (snd (Rectangle_is_square r))) = fst (Rectangle_is_square r)
   \<and> fst (Triangle_area (snd (Triangle_area t))) = fst (Triangle_area t)
   \<and> fst (Triangle_perimeter (snd (Triangle_perimeter t))) = fst (Triangle_perimeter t)
   \<and> fst (Triangle_edge_count (snd (Triangle_edge_count t))) = fst (Triangle_edge_count t)
   \<and> fst (Triangle_vertex_count (snd (Triangle_vertex_count t))) = fst (Triangle_vertex_count t)"
  by (simp add: Circle_area_def Circle_perimeter_def Circle_diameter_def Rectangle_area_def
      Rectangle_perimeter_def Rectangle_edge_count_def Rectangle_vertex_count_def
      Rectangle_is_square_def Triangle_area_def Triangle_perimeter_def Triangle_edge_count_def
      Triangle_vertex_count_def)

section \<open>Degenerate triangles\<close>



end
